theory Spec2Isabelle
  imports Main
begin

section \<open>Python strings\<close>

text \<open>
  A Python \<open>str\<close> is a sequence of Unicode code points, and \<open>len\<close> counts code points.
  The filter of the translator looks at Devanagari letters, so a string is modelled as the
  list of its code points. \<open>lit\<close> embeds an ASCII literal of the source.
\<close>

type_synonym pystr = "nat list"

definition lit :: "string \<Rightarrow> pystr" where
  "lit cs = map of_char cs"

text \<open>
  \<open>str.isspace\<close> for one code point, as CPython decides it: the characters of
  bidirectional class WS, B or S and of category Zs. \<open>str.strip()\<close> without argument
  removes the longest prefix and the longest suffix of such characters.
\<close>

definition isspace :: "nat \<Rightarrow> bool" where
  "isspace c \<longleftrightarrow>
     (0x09 \<le> c \<and> c \<le> 0x0D) \<or> (0x1C \<le> c \<and> c \<le> 0x20) \<or> c = 0x85 \<or> c = 0xA0 \<or>
     c = 0x1680 \<or> (0x2000 \<le> c \<and> c \<le> 0x200A) \<or> c = 0x2028 \<or> c = 0x2029 \<or>
     c = 0x202F \<or> c = 0x205F \<or> c = 0x3000"

definition strip :: "pystr \<Rightarrow> pystr" where
  "strip s = rev (dropWhile isspace (rev (dropWhile isspace s)))"

section \<open>Configuration tables\<close>

text \<open>
  \<^verbatim>\<open>LANGUAGES = {"es": "Spanish", "hi": "Hindi"}\<close> and
  \<^verbatim>\<open>LANG_COLOR = {"es": "cyan", "hi": "green"}\<close>. A subscript \<open>d[k]\<close> with a key that is
  not in the dictionary raises \<open>KeyError\<close>.
\<close>

definition LANGUAGES :: "pystr \<rightharpoonup> pystr" where
  "LANGUAGES = map_of [(lit ''es'', lit ''Spanish''), (lit ''hi'', lit ''Hindi'')]"

definition LANG_COLOR :: "pystr \<rightharpoonup> pystr" where
  "LANG_COLOR = map_of [(lit ''es'', lit ''cyan''), (lit ''hi'', lit ''green'')]"

text \<open>
  The exceptions that leave the methods modelled here: \<open>KeyError\<close> from a subscript,
  \<open>MarkupError\<close> from \<open>console.print\<close>, and \<open>RuntimeError\<close> from starting a thread.
\<close>

datatype py_error = KeyError pystr | MarkupError | RuntimeError

section \<open>Data model\<close>

record ConversationEntry =
  original :: pystr
  translated :: pystr
  source_lang :: pystr
  target_lang :: pystr
  timestamp :: pystr

text \<open>
  \<open>ConversationEntry.__init__\<close>. The time stamp is
  \<^verbatim>\<open>datetime.now().strftime("%H:%M:%S")\<close>; the formatted clock reading is the first argument.
\<close>

definition ConversationEntry_init ::
  "pystr \<Rightarrow> pystr \<Rightarrow> pystr \<Rightarrow> pystr \<Rightarrow> pystr \<Rightarrow> ConversationEntry" where
  "ConversationEntry_init now orig transl src tgt =
     \<lparr>original = orig, translated = transl, source_lang = src, target_lang = tgt,
      timestamp = now\<rparr>"

text \<open>The attributes of a \<open>LiveTranslator\<close> object (\<open>self.source_lang\<close>, ...).\<close>

record LiveTranslator =
  self_source_lang :: pystr
  self_target_lang :: pystr
  history :: "ConversationEntry list"

definition LiveTranslator_init :: "pystr \<Rightarrow> pystr \<Rightarrow> LiveTranslator" where
  "LiveTranslator_init src tgt =
     \<lparr>self_source_lang = src, self_target_lang = tgt, history = []\<rparr>"

section \<open>The outside world\<close>

text \<open>
  The translation service, the speech synthesis, the clock, the console and the thread
  system are outside the program.
  \<^item> One call of the translation service (\<open>GoogleTranslator(source, target).translate(text)\<close>)
    either returns a value, a string or \<open>None\<close>, or raises an \<open>Exception\<close> whose \<open>str\<close> is
    recorded.
  \<^item> One run of the body of \<open>speak\<close> (gTTS and pygame) either completes, or raises
    \<open>ImportError\<close>, or raises another \<open>Exception\<close> whose \<open>str\<close> is recorded.
  \<^item> \<open>console\<close> is a rich \<open>Console\<close>: \<open>console.print\<close> reads its argument as console markup
    and raises \<open>MarkupError\<close> when a closing tag matches no open tag. \<open>markup_rejected\<close> says
    of a line whether the library raises on it.
  \<^item> \<open>Thread.start\<close> raises \<open>RuntimeError\<close> when no thread can be started;
    \<open>thread_starts\<close> says whether one can.
\<close>

datatype service_reply = Returns "pystr option" | Raises pystr

datatype synth_reply = Played | RaisesImportError | RaisesException pystr

record world =
  translation_service :: "pystr \<Rightarrow> pystr \<Rightarrow> pystr \<Rightarrow> service_reply"
  synthesis :: "pystr \<Rightarrow> pystr \<Rightarrow> synth_reply"
  clock :: pystr
  markup_rejected :: "pystr \<Rightarrow> bool"
  thread_starts :: bool

text \<open>
  What a call does besides returning: the lines that \<open>console.print\<close> has shown, the
  requests sent to the translation service (source, target, text), the threads started on
  \<open>speak\<close> (text, language, how the thread ended and what it did), and the tables shown by
  the history display (title, column headers, rows of cells).
\<close>

datatype event =
    Print pystr
  | TranslateCall pystr pystr pystr
  | SpeakThread pystr pystr "py_error + unit" "event list"
  | PrintTable pystr "pystr list" "pystr list list"

section \<open>Console output\<close>

text \<open>
  Every line this program prints is a fixed, well-formed piece of markup with one text
  interpolated into it (the user's text, the translation, or the text of an exception).
  The library can therefore raise only because of a tag inside the interpolated text, and
  a tag is an opening square bracket with a closing square bracket somewhere after it.
  \<open>may_hold_tag\<close> is that necessary condition; when it holds, whether the line is rejected
  is the library's decision.
\<close>

definition may_hold_tag :: "pystr \<Rightarrow> bool" where
  "may_hold_tag text \<longleftrightarrow> 0x5D \<in> set (dropWhile (\<lambda>c. c \<noteq> 0x5B) text)"

definition renders :: "world \<Rightarrow> pystr \<Rightarrow> pystr \<Rightarrow> bool" where
  "renders w text line \<longleftrightarrow> \<not> (may_hold_tag text \<and> markup_rejected w line)"

text \<open>
  \<open>console.print(line)\<close>, where \<open>text\<close> is what was interpolated into \<open>line\<close>: the line is
  shown, or \<open>MarkupError\<close> is raised and nothing is shown.
\<close>

definition console_print :: "world \<Rightarrow> pystr \<Rightarrow> pystr \<Rightarrow> (py_error + unit) \<times> event list" where
  "console_print w text line =
     (if renders w text line then (Inr (), [Print line]) else (Inl MarkupError, []))"

section \<open>Translation\<close>

definition translation_error :: "pystr \<Rightarrow> pystr" where
  "translation_error e = lit ''[red]Translation error: '' @ e @ lit ''[/red]''"

text \<open>
  \<open>LiveTranslator.translate\<close>: \<open>result or ""\<close>, and \<open>""\<close> after reporting an exception. The
  report is a \<open>console.print\<close> inside the handler; when it raises, the exception leaves
  \<open>translate\<close>.
\<close>

definition translate ::
  "world \<Rightarrow> LiveTranslator \<Rightarrow> pystr \<Rightarrow> (py_error + pystr) \<times> event list" where
  "translate w self text =
     (let call = TranslateCall (self_source_lang self) (self_target_lang self) text in
      case translation_service w (self_source_lang self) (self_target_lang self) text of
        Returns result \<Rightarrow> (Inr (case result of None \<Rightarrow> [] | Some r \<Rightarrow> r), [call])
      | Raises e \<Rightarrow>
         (case console_print w e (translation_error e) of
            (Inl err, shown) \<Rightarrow> (Inl err, call # shown)
          | (Inr u, shown) \<Rightarrow> (Inr [], call # shown)))"

section \<open>Audio output\<close>

definition audio_error :: "pystr \<Rightarrow> pystr" where
  "audio_error e = lit ''[yellow]Audio error: '' @ e @ lit ''[/yellow]''"

definition audio_requires :: pystr where
  "audio_requires = lit ''[yellow]Audio output requires: pip install gtts pygame[/yellow]''"

text \<open>
  \<open>LiveTranslator.speak\<close>: the whole body is inside \<open>try\<close>, with one handler for
  \<open>ImportError\<close> and one for every other \<open>Exception\<close>; each handler prints one line, and the
  exception of that print, if any, leaves \<open>speak\<close>.
\<close>

definition speak :: "world \<Rightarrow> pystr \<Rightarrow> pystr \<Rightarrow> (py_error + unit) \<times> event list" where
  "speak w text lang =
     (case synthesis w text lang of
        Played \<Rightarrow> (Inr (), [])
      | RaisesImportError \<Rightarrow> console_print w [] audio_requires
      | RaisesException e \<Rightarrow> console_print w e (audio_error e))"

text \<open>
  \<^verbatim>\<open>threading.Thread(target=self.speak, args=(text, lang), daemon=True).start()\<close>:
  \<open>start\<close> returns as soon as the thread exists, or raises \<open>RuntimeError\<close>. The target runs
  in the new thread; how it ends, an exception included, stays there and is recorded in the
  event.
\<close>

definition start_speak_thread ::
  "world \<Rightarrow> pystr \<Rightarrow> pystr \<Rightarrow> (py_error + unit) \<times> event list" where
  "start_speak_thread w text lang =
     (if thread_starts w
      then (Inr (), [SpeakThread text lang (fst (speak w text lang)) (snd (speak w text lang))])
      else (Inl RuntimeError, []))"

section \<open>Core processing\<close>

definition vowels :: "nat list" where
  "vowels = lit ''aeiouAEIOU'' @
     [0x905, 0x906, 0x907, 0x908, 0x909, 0x90A, 0x90F, 0x910, 0x913, 0x914]"

definition looks_like_speech :: "pystr \<Rightarrow> bool" where
  "looks_like_speech text =
     (if length text < 2 then False else list_ex (\<lambda>ch. ch \<in> set vowels) text)"

definition skipping_noise :: "pystr \<Rightarrow> pystr" where
  "skipping_noise text = lit ''[dim]Skipping noise: '' @ [0x27] @ text @ [0x27] @ lit ''[/dim]''"

definition language_line :: "pystr \<Rightarrow> pystr \<Rightarrow> pystr \<Rightarrow> pystr" where
  "language_line color name text =
     lit ''  ['' @ color @ lit '']'' @ name @ lit '':[/'' @ color @ lit '']  '' @ text"

definition speaking :: pystr where
  "speaking = lit ''[dim]  Speaking'' @ [0x2026] @ lit ''[/dim]''"

text \<open>
  \<open>LiveTranslator.process\<close>. The result is the value returned or the exception raised, the
  object after the call, and what the call did, in order. An exception of a statement ends
  the call there: what was done before stays done, and the object is as it was, since the
  only assignment is the append of the last but one statement.
\<close>

definition process ::
  "world \<Rightarrow> LiveTranslator \<Rightarrow> pystr \<Rightarrow>
     (py_error + ConversationEntry option) \<times> LiveTranslator \<times> event list" where
  "process w self raw =
     (let text = strip raw in
      if text = [] then (Inr None, self, [])
      else if \<not> looks_like_speech text then
       (case console_print w text (skipping_noise text) of
          (Inl err, skipped) \<Rightarrow> (Inl err, self, skipped)
        | (Inr u, skipped) \<Rightarrow> (Inr None, self, skipped))
      else
       (case LANG_COLOR (self_source_lang self) of
          None \<Rightarrow> (Inl (KeyError (self_source_lang self)), self, [])
        | Some src_color \<Rightarrow>
       (case LANG_COLOR (self_target_lang self) of
          None \<Rightarrow> (Inl (KeyError (self_target_lang self)), self, [])
        | Some tgt_color \<Rightarrow>
       (case LANGUAGES (self_source_lang self) of
          None \<Rightarrow> (Inl (KeyError (self_source_lang self)), self, [])
        | Some src_name \<Rightarrow>
       (case console_print w text ([0x0A] @ language_line src_color src_name text) of
          (Inl err, shown) \<Rightarrow> (Inl err, self, shown)
        | (Inr u, shown) \<Rightarrow>
       (case translate w self text of
          (Inl err, called) \<Rightarrow> (Inl err, self, shown @ called)
        | (Inr result, called) \<Rightarrow>
          if result = [] then (Inr None, self, shown @ called)
          else
           (case LANGUAGES (self_target_lang self) of
              None \<Rightarrow> (Inl (KeyError (self_target_lang self)), self, shown @ called)
            | Some tgt_name \<Rightarrow>
           (case console_print w result (language_line tgt_color tgt_name result) of
              (Inl err, answered) \<Rightarrow> (Inl err, self, shown @ called @ answered)
            | (Inr u, answered) \<Rightarrow>
           (case console_print w [] speaking of
              (Inl err, announced) \<Rightarrow> (Inl err, self, shown @ called @ answered @ announced)
            | (Inr u, announced) \<Rightarrow>
           (case start_speak_thread w result (self_target_lang self) of
              (Inl err, started) \<Rightarrow>
                (Inl err, self, shown @ called @ answered @ announced @ started)
            | (Inr u, started) \<Rightarrow>
               (let entry = ConversationEntry_init (clock w) text result
                              (self_source_lang self) (self_target_lang self)
                in (Inr (Some entry),
                    self\<lparr>history := history self @ [entry]\<rparr>,
                    shown @ called @ answered @ announced @ started))))))))))))"

section \<open>History display\<close>

definition markup :: "pystr \<Rightarrow> pystr \<Rightarrow> pystr" where
  "markup color text = lit ''['' @ color @ lit '']'' @ text @ lit ''[/'' @ color @ lit '']''"

text \<open>
  A cell of the table is the text interpolated into it together with the string given to
  \<open>table.add_row\<close>. The loop of \<open>_show_history\<close> adds one row of three cells for each entry,
  in the order of the list; the second argument is the rows added so far.
\<close>

type_synonym cell = "pystr \<times> pystr"

fun add_rows :: "ConversationEntry list \<Rightarrow> cell list list \<Rightarrow> py_error + cell list list" where
  "add_rows [] rows = Inr rows"
| "add_rows (entry # rest) rows =
     (case LANG_COLOR (source_lang entry) of
        None \<Rightarrow> Inl (KeyError (source_lang entry))
      | Some src_color \<Rightarrow>
     (case LANG_COLOR (target_lang entry) of
        None \<Rightarrow> Inl (KeyError (target_lang entry))
      | Some tgt_color \<Rightarrow>
          add_rows rest
            (rows @ [[(timestamp entry, timestamp entry),
                      (original entry, markup src_color (original entry)),
                      (translated entry, markup tgt_color (translated entry))]])))"

text \<open>
  \<open>console.print(table)\<close>: the cells are read as console markup like any printed line, so
  the table is shown only when every cell renders.
\<close>

definition print_table ::
  "world \<Rightarrow> pystr \<Rightarrow> pystr list \<Rightarrow> cell list list \<Rightarrow> (py_error + unit) \<times> event list" where
  "print_table w title columns rows =
     (if list_all (list_all (\<lambda>(text, shown). renders w text shown)) rows
      then (Inr (), [PrintTable title columns (map (map snd) rows)])
      else (Inl MarkupError, []))"

definition show_history :: "world \<Rightarrow> LiveTranslator \<Rightarrow> (py_error + unit) \<times> event list" where
  "show_history w self =
     (if history self = []
      then console_print w [] (lit ''[dim]No conversation history yet.[/dim]'')
      else
       (case add_rows (history self) [] of
          Inl e \<Rightarrow> (Inl e, [])
        | Inr rows \<Rightarrow>
            print_table w (lit ''Conversation History'')
              [lit ''Time'', lit ''Original'', lit ''Translation''] rows))"

section \<open>Sessions\<close>

text \<open>
  The two front-ends drive one \<open>LiveTranslator\<close> object through calls of \<open>process\<close> and
  \<open>_show_history\<close> only, each call meeting the outside world as it is at that moment.
  \<open>after_call\<close> is the object after one such call (\<open>_show_history\<close> assigns nothing),
  and a session is a list of calls made one after the other on the object that
  \<open>LiveTranslator.__init__\<close> built.
\<close>

datatype call = Process world pystr | ShowHistory

fun after_call :: "LiveTranslator \<Rightarrow> call \<Rightarrow> LiveTranslator" where
  "after_call self (Process w raw) = fst (snd (process w self raw))"
| "after_call self ShowHistory = self"

definition after_calls :: "LiveTranslator \<Rightarrow> call list \<Rightarrow> LiveTranslator" where
  "after_calls self calls = foldl after_call self calls"

text \<open>The invariant of the data model: every recorded entry carries the session's language pair.\<close>

definition unidirectional :: "LiveTranslator \<Rightarrow> bool" where
  "unidirectional self \<longleftrightarrow>
     list_all (\<lambda>entry. source_lang entry = self_source_lang self \<and>
                        target_lang entry = self_target_lang self) (history self)"

text \<open>What a call printed on the control thread, and the requests it sent to the service.\<close>

definition printed :: "event list \<Rightarrow> pystr list" where
  "printed evs = concat (map (\<lambda>ev. case ev of Print line \<Rightarrow> [line] | _ \<Rightarrow> []) evs)"

definition translate_calls :: "event list \<Rightarrow> event list" where
  "translate_calls evs = filter (\<lambda>ev. case ev of TranslateCall s t x \<Rightarrow> True | _ \<Rightarrow> False) evs"

text \<open>
  The error notification of the translation step is the line that the handler of
  \<open>translate\<close> prints: the red "Translation error: " followed by the exception's text.
\<close>

definition is_translation_error :: "pystr \<Rightarrow> bool" where
  "is_translation_error line \<longleftrightarrow>
     (let opening = lit ''[red]Translation error: ''; closing = lit ''[/red]'' in
      length opening + length closing \<le> length line \<and>
      take (length opening) line = opening \<and>
      drop (length line - length closing) line = closing)"

definition error_notified :: "event list \<Rightarrow> bool" where
  "error_notified evs = list_ex is_translation_error (printed evs)"

section \<open>Test scenarios\<close>

text \<open>
  A mocked outside world whose translation service and synthesis always answer the same,
  whose console shows every line and where threads start; the same world with a console
  that raises \<open>MarkupError\<close> on the given lines, as rich does on a line with a closing tag
  that matches no open tag; and the Spanish to Hindi session of the scenarios, with the
  Hindi greeting as the translation.
\<close>

definition mock_world :: "service_reply \<Rightarrow> synth_reply \<Rightarrow> world" where
  "mock_world reply synth =
     \<lparr>translation_service = (\<lambda>src tgt text. reply), synthesis = (\<lambda>text lang. synth),
      clock = lit ''12:00:00'', markup_rejected = (\<lambda>line. False), thread_starts = True\<rparr>"

definition rejecting :: "pystr list \<Rightarrow> world \<Rightarrow> world" where
  "rejecting lines w = w\<lparr>markup_rejected := (\<lambda>line. line \<in> set lines)\<rparr>"

definition namaste :: pystr where
  "namaste = [0x928, 0x92E, 0x938, 0x94D, 0x924, 0x947]"

definition es_hi :: LiveTranslator where
  "es_hi = LiveTranslator_init (lit ''es'') (lit ''hi'')"

section \<open>Basic facts\<close>

lemma LANG_COLOR_simps:
  "LANG_COLOR (lit ''es'') = Some (lit ''cyan'')" "LANG_COLOR (lit ''hi'') = Some (lit ''green'')"
  by (simp_all add: LANG_COLOR_def lit_def)

lemma LANGUAGES_simps:
  "LANGUAGES (lit ''es'') = Some (lit ''Spanish'')" "LANGUAGES (lit ''hi'') = Some (lit ''Hindi'')"
  by (simp_all add: LANGUAGES_def lit_def)

lemma configured_lookup:
  assumes "l \<in> {lit ''es'', lit ''hi''}"
  shows "\<exists>color name. LANG_COLOR l = Some color \<and> LANGUAGES l = Some name"
  using assms by (auto simp: LANG_COLOR_simps LANGUAGES_simps)

lemma looks_like_speech_iff:
  "looks_like_speech text \<longleftrightarrow> 2 \<le> length text \<and> (\<exists>ch \<in> set text. ch \<in> set vowels)"
  by (auto simp: looks_like_speech_def list_ex_iff)

lemma set_strip: "set (strip s) \<subseteq> set s"
proof -
  have "set (strip s) \<subseteq> set (dropWhile isspace s)"
    unfolding strip_def by (auto dest: set_dropWhileD)
  also have "\<dots> \<subseteq> set s" by (auto dest: set_dropWhileD)
  finally show ?thesis .
qed

lemma strip_empty_iff: "strip s = [] \<longleftrightarrow> (\<forall>c \<in> set s. isspace c)"
proof
  assume "strip s = []"
  then have all: "\<forall>c \<in> set (dropWhile isspace s). isspace c"
    by (simp add: strip_def dropWhile_eq_Nil_conv)
  have "dropWhile isspace s = []"
  proof (rule ccontr)
    assume ne: "dropWhile isspace s \<noteq> []"
    then have "\<not> isspace (hd (dropWhile isspace s))" by (rule hd_dropWhile)
    moreover from ne have "hd (dropWhile isspace s) \<in> set (dropWhile isspace s)" by simp
    ultimately show False using all by blast
  qed
  then show "\<forall>c \<in> set s. isspace c" by (simp add: dropWhile_eq_Nil_conv)
next
  assume "\<forall>c \<in> set s. isspace c"
  then show "strip s = []" by (auto simp: strip_def dest: set_dropWhileD)
qed

lemma strip_no_space:
  assumes "\<forall>c \<in> set s. \<not> isspace c"
  shows "strip s = s"
proof -
  from assms have front: "dropWhile isspace s = s"
    by (cases s) simp_all
  from assms have "\<forall>c \<in> set (rev s). \<not> isspace c" by simp
  then have "dropWhile isspace (rev s) = rev s"
    by (cases "rev s") simp_all
  with front show ?thesis by (simp add: strip_def)
qed

lemma may_hold_tag_short: "length text < 2 \<Longrightarrow> \<not> may_hold_tag text"
proof (cases "text")
  case Nil
  then show ?thesis by (simp add: may_hold_tag_def)
next
  case (Cons c rest)
  assume "length text < 2"
  with Cons have "rest = []" by simp
  with Cons show ?thesis by (simp add: may_hold_tag_def)
qed

lemma may_hold_tag_no_bracket: "0x5B \<notin> set text \<Longrightarrow> \<not> may_hold_tag text"
proof -
  assume "0x5B \<notin> set text"
  then have none: "dropWhile (\<lambda>c. c \<noteq> 0x5B) text = []" by auto
  show ?thesis unfolding may_hold_tag_def none by simp
qed

lemma renders_plain: "\<not> may_hold_tag text \<Longrightarrow> renders w text line"
  by (simp add: renders_def)

lemma renders_nothing_interpolated: "renders w [] line"
  by (simp add: renders_def may_hold_tag_def)

lemma console_print_shown:
  "renders w text line \<Longrightarrow> console_print w text line = (Inr (), [Print line])"
  by (simp add: console_print_def)

lemma console_print_raised:
  "\<not> renders w text line \<Longrightarrow> console_print w text line = (Inl MarkupError, [])"
  by (simp add: console_print_def)

lemma process_empty: "strip raw = [] \<Longrightarrow> process w self raw = (Inr None, self, [])"
  by (simp add: process_def)

lemma process_noise:
  assumes "strip raw \<noteq> []" and "\<not> looks_like_speech (strip raw)"
  shows "process w self raw =
     (if renders w (strip raw) (skipping_noise (strip raw))
      then (Inr None, self, [Print (skipping_noise (strip raw))])
      else (Inl MarkupError, self, []))"
  using assms by (simp add: process_def console_print_def)

lemma looks_like_speech_nonempty: "looks_like_speech text \<Longrightarrow> text \<noteq> []"
  by (auto simp: looks_like_speech_def)

lemma process_source_rejected:
  assumes "looks_like_speech (strip raw)"
    and "LANG_COLOR (self_source_lang self) = Some sc"
    and "LANG_COLOR (self_target_lang self) = Some tc"
    and "LANGUAGES (self_source_lang self) = Some sn"
    and "\<not> renders w (strip raw) ([0x0A] @ language_line sc sn (strip raw))"
  shows "process w self raw = (Inl MarkupError, self, [])"
  using assms looks_like_speech_nonempty [OF assms(1)]
  by (simp add: process_def console_print_def)

lemma process_raises:
  assumes "looks_like_speech (strip raw)"
    and "LANG_COLOR (self_source_lang self) = Some sc"
    and "LANG_COLOR (self_target_lang self) = Some tc"
    and "LANGUAGES (self_source_lang self) = Some sn"
    and "renders w (strip raw) ([0x0A] @ language_line sc sn (strip raw))"
    and "translation_service w (self_source_lang self) (self_target_lang self) (strip raw) = Raises e"
  shows "process w self raw =
     (if renders w e (translation_error e)
      then (Inr None, self,
            [Print ([0x0A] @ language_line sc sn (strip raw)),
             TranslateCall (self_source_lang self) (self_target_lang self) (strip raw),
             Print (translation_error e)])
      else (Inl MarkupError, self,
            [Print ([0x0A] @ language_line sc sn (strip raw)),
             TranslateCall (self_source_lang self) (self_target_lang self) (strip raw)]))"
  using assms looks_like_speech_nonempty [OF assms(1)]
  by (simp add: process_def translate_def console_print_def Let_def)

lemma process_empty_result:
  assumes "looks_like_speech (strip raw)"
    and "LANG_COLOR (self_source_lang self) = Some sc"
    and "LANG_COLOR (self_target_lang self) = Some tc"
    and "LANGUAGES (self_source_lang self) = Some sn"
    and "renders w (strip raw) ([0x0A] @ language_line sc sn (strip raw))"
    and "translation_service w (self_source_lang self) (self_target_lang self) (strip raw) = Returns r"
    and "r = None \<or> r = Some []"
  shows "process w self raw =
     (Inr None, self,
      [Print ([0x0A] @ language_line sc sn (strip raw)),
       TranslateCall (self_source_lang self) (self_target_lang self) (strip raw)])"
  using assms looks_like_speech_nonempty [OF assms(1)]
  by (auto simp add: process_def translate_def console_print_def Let_def)

lemma process_translated:
  assumes "looks_like_speech (strip raw)"
    and "LANG_COLOR (self_source_lang self) = Some sc"
    and "LANG_COLOR (self_target_lang self) = Some tc"
    and "LANGUAGES (self_source_lang self) = Some sn"
    and "LANGUAGES (self_target_lang self) = Some tn"
    and "renders w (strip raw) ([0x0A] @ language_line sc sn (strip raw))"
    and "translation_service w (self_source_lang self) (self_target_lang self) (strip raw) =
           Returns (Some r)"
    and "r \<noteq> []"
  shows "process w self raw =
     (if \<not> renders w r (language_line tc tn r) then
        (Inl MarkupError, self,
         [Print ([0x0A] @ language_line sc sn (strip raw)),
          TranslateCall (self_source_lang self) (self_target_lang self) (strip raw)])
      else if \<not> thread_starts w then
        (Inl RuntimeError, self,
         [Print ([0x0A] @ language_line sc sn (strip raw)),
          TranslateCall (self_source_lang self) (self_target_lang self) (strip raw),
          Print (language_line tc tn r),
          Print speaking])
      else
        (Inr (Some (ConversationEntry_init (clock w) (strip raw) r
                      (self_source_lang self) (self_target_lang self))),
         self\<lparr>history := history self @
            [ConversationEntry_init (clock w) (strip raw) r
               (self_source_lang self) (self_target_lang self)]\<rparr>,
         [Print ([0x0A] @ language_line sc sn (strip raw)),
          TranslateCall (self_source_lang self) (self_target_lang self) (strip raw),
          Print (language_line tc tn r),
          Print speaking,
          SpeakThread r (self_target_lang self)
            (fst (speak w r (self_target_lang self)))
            (snd (speak w r (self_target_lang self)))]))"
  using assms looks_like_speech_nonempty [OF assms(1)]
  by (simp add: process_def translate_def console_print_def start_speak_thread_def Let_def
      renders_nothing_interpolated)

lemma process_result:
  assumes "process w self raw = (res, self', evs)"
  shows "(\<exists>r. res = Inr (Some (ConversationEntry_init (clock w) (strip raw) r
                    (self_source_lang self) (self_target_lang self))) \<and>
              self' = self\<lparr>history := history self @
                [ConversationEntry_init (clock w) (strip raw) r
                   (self_source_lang self) (self_target_lang self)]\<rparr>) \<or>
         (self' = self \<and> (\<forall>entry. res \<noteq> Inr (Some entry)))"
  using assms
  by (auto simp: process_def Let_def
      split: option.splits prod.splits sum.splits if_splits)

lemma process_state:
  "(\<exists>r. fst (process w self raw) =
          Inr (Some (ConversationEntry_init (clock w) (strip raw) r
                       (self_source_lang self) (self_target_lang self))) \<and>
        fst (snd (process w self raw)) =
          self\<lparr>history := history self @
            [ConversationEntry_init (clock w) (strip raw) r
               (self_source_lang self) (self_target_lang self)]\<rparr>) \<or>
   (fst (snd (process w self raw)) = self \<and>
    (\<forall>entry. fst (process w self raw) \<noteq> Inr (Some entry)))"
proof -
  have "process w self raw =
      (fst (process w self raw), fst (snd (process w self raw)), snd (snd (process w self raw)))"
    by simp
  then show ?thesis by (rule process_result)
qed

lemma is_translation_error_iff:
  "is_translation_error line \<longleftrightarrow> (\<exists>e. line = translation_error e)"
proof
  assume h: "is_translation_error line"
  let ?p = "lit ''[red]Translation error: ''" and ?q = "lit ''[/red]''"
  from h have len: "length ?p + length ?q \<le> length line"
    and p: "take (length ?p) line = ?p"
    and q: "drop (length line - length ?q) line = ?q"
    by (simp_all add: is_translation_error_def Let_def)
  define rest where "rest = drop (length ?p) line"
  have line: "line = ?p @ rest"
    unfolding rest_def by (metis append_take_drop_id p)
  from len line have more: "length ?q \<le> length rest"
    by (metis add_le_cancel_left length_append)
  have "length line - length ?q = length ?p + (length rest - length ?q)"
    using more by (subst line) simp
  then have "drop (length line - length ?q) line = drop (length rest - length ?q) rest"
    by (subst (2) line) simp
  with q have "drop (length rest - length ?q) rest = ?q" by simp
  then have "rest = take (length rest - length ?q) rest @ ?q"
    by (metis append_take_drop_id)
  with line have "line = translation_error (take (length rest - length ?q) rest)"
    by (simp add: translation_error_def)
  then show "\<exists>e. line = translation_error e" ..
next
  assume "\<exists>e. line = translation_error e"
  then obtain e where "line = translation_error e" ..
  then show "is_translation_error line"
    by (simp add: is_translation_error_def translation_error_def Let_def)
qed

lemma skipping_noise_not_error: "\<not> is_translation_error (skipping_noise text)"
  by (simp add: is_translation_error_def skipping_noise_def Let_def lit_def)

lemma source_line_not_error: "\<not> is_translation_error ([0x0A] @ line)"
  by (simp add: is_translation_error_def Let_def lit_def)

lemma translation_error_is_error: "is_translation_error (translation_error e)"
  by (auto simp: is_translation_error_iff)

lemma hola_facts:
  "strip (lit ''hola'') = lit ''hola''" "looks_like_speech (lit ''hola'')"
  by (simp_all add: strip_def lit_def isspace_def looks_like_speech_def vowels_def)

lemma es_hi_simps:
  "self_source_lang es_hi = lit ''es''" "self_target_lang es_hi = lit ''hi''" "history es_hi = []"
  by (simp_all add: es_hi_def LiveTranslator_init_def)

lemma printed_simps:
  "printed [] = []"
  "printed (Print line # evs) = line # printed evs"
  "printed (TranslateCall s t x # evs) = printed evs"
  "printed (SpeakThread x l outcome out # evs) = printed evs"
  "printed (PrintTable title cols rows # evs) = printed evs"
  by (simp_all add: printed_def)

lemma mock_world_simps:
  "translation_service (mock_world reply synth) src tgt x = reply"
  "synthesis (mock_world reply synth) x lang = synth"
  "clock (mock_world reply synth) = lit ''12:00:00''"
  "markup_rejected (mock_world reply synth) line = False"
  "thread_starts (mock_world reply synth)"
  by (simp_all add: mock_world_def)

lemma mock_world_renders: "renders (mock_world reply synth) x line"
  by (simp add: renders_def mock_world_simps)

lemma rejecting_simps:
  "translation_service (rejecting lines w) = translation_service w"
  "synthesis (rejecting lines w) = synthesis w"
  "clock (rejecting lines w) = clock w"
  "markup_rejected (rejecting lines w) line \<longleftrightarrow> line \<in> set lines"
  "thread_starts (rejecting lines w) = thread_starts w"
  by (simp_all add: rejecting_def)

section \<open>Inputs that are not translated\<close>

text \<open>
  C8. For every input that trims to the empty string, \<open>process\<close> returns nothing and does
  nothing else: it prints no "skipped" notification (unlike the noise case), sends no request
  to the translation service, emits no output and leaves the object, and so the history, as
  it was.
\<close>

theorem process_blank_input:
  assumes "strip raw = []"
  shows "process w self raw = (Inr None, self, [])"
  using assms by (rule process_empty)

theorem process_blank_input_witness:
  "strip (lit ''   '') = [] \<and>
   process (mock_world (Returns (Some namaste)) Played) es_hi (lit ''   '') = (Inr None, es_hi, [])"
proof -
  have h: "strip (lit ''   '') = []" by (simp add: strip_def lit_def isspace_def)
  show ?thesis
    using h process_blank_input [OF h, of "mock_world (Returns (Some namaste)) Played" es_hi]
    by blast
qed

text \<open>
  C5. For every input whose trimmed form is shorter than two characters, \<open>process\<close> returns
  nothing, sends no request to the translation service and appends no history entry. (One
  character cannot hold a tag, so the print of the notification cannot raise.)
\<close>

theorem process_short_input:
  assumes "length (strip raw) < 2"
  shows "fst (process w self raw) = Inr None \<and>
         fst (snd (process w self raw)) = self \<and>
         translate_calls (snd (snd (process w self raw))) = []"
proof (cases "strip raw = []")
  case True
  then show ?thesis by (simp add: process_empty translate_calls_def)
next
  case False
  moreover from assms have "\<not> looks_like_speech (strip raw)"
    by (simp add: looks_like_speech_def)
  moreover from assms have "renders w (strip raw) (skipping_noise (strip raw))"
    by (simp add: may_hold_tag_short renders_plain)
  ultimately show ?thesis by (simp add: process_noise translate_calls_def)
qed

theorem process_short_input_witness:
  "length (strip (lit '' a '')) < 2 \<and>
   fst (process (mock_world (Returns (Some namaste)) Played) es_hi (lit '' a '')) = Inr None \<and>
   fst (snd (process (mock_world (Returns (Some namaste)) Played) es_hi (lit '' a ''))) = es_hi \<and>
   translate_calls (snd (snd (process (mock_world (Returns (Some namaste)) Played) es_hi (lit '' a '')))) = []"
proof -
  have h: "length (strip (lit '' a '')) < 2" by (simp add: strip_def lit_def isspace_def)
  show ?thesis
    using h process_short_input [OF h, of "mock_world (Returns (Some namaste)) Played" es_hi]
    by blast
qed

section \<open>The session invariant\<close>

lemma after_call_cases:
  "after_call self c = self \<or>
   (\<exists>now text r. after_call self c =
      self\<lparr>history := history self @
        [ConversationEntry_init now text r (self_source_lang self) (self_target_lang self)]\<rparr>)"
proof (cases c)
  case (Process w raw)
  with process_state [of w self raw] show ?thesis by auto
next
  case ShowHistory
  then show ?thesis by simp
qed

lemma after_call_langs:
  "self_source_lang (after_call self c) = self_source_lang self"
  "self_target_lang (after_call self c) = self_target_lang self"
  using after_call_cases [of self c] by auto

lemma after_call_unidirectional:
  assumes "unidirectional self"
  shows "unidirectional (after_call self c)"
  using after_call_cases [of self c] assms
  by (auto simp: unidirectional_def ConversationEntry_init_def)

lemma after_calls_invariant:
  "unidirectional self \<Longrightarrow>
   unidirectional (after_calls self calls) \<and>
   self_source_lang (after_calls self calls) = self_source_lang self \<and>
   self_target_lang (after_calls self calls) = self_target_lang self"
proof (induction calls arbitrary: self)
  case Nil
  then show ?case by (simp add: after_calls_def)
next
  case (Cons c calls)
  from Cons.prems have "unidirectional (after_call self c)"
    by (rule after_call_unidirectional)
  from Cons.IH [OF this] show ?case
    by (simp add: after_calls_def after_call_langs)
qed

text \<open>
  C3. The invariant holds of the object that \<open>LiveTranslator.__init__\<close> builds, and every
  operation of the session (\<open>process\<close>, whatever the outside world answers and also when
  it raises, and \<open>_show_history\<close>) preserves it and leaves \<open>source_lang\<close> and
  \<open>target_lang\<close> of the session as they are. So after any sequence of operations every
  entry of the history carries the language pair given at construction, which the session
  still has.
\<close>

theorem session_language_pair_invariant:
  "unidirectional (LiveTranslator_init src tgt) \<and>
   self_source_lang (LiveTranslator_init src tgt) = src \<and>
   self_target_lang (LiveTranslator_init src tgt) = tgt \<and>
   (unidirectional self \<longrightarrow> unidirectional (after_call self c)) \<and>
   self_source_lang (after_call self c) = self_source_lang self \<and>
   self_target_lang (after_call self c) = self_target_lang self \<and>
   unidirectional (after_calls (LiveTranslator_init src tgt) calls) \<and>
   self_source_lang (after_calls (LiveTranslator_init src tgt) calls) = src \<and>
   self_target_lang (after_calls (LiveTranslator_init src tgt) calls) = tgt"
proof -
  have init: "unidirectional (LiveTranslator_init src tgt)"
    by (simp add: unidirectional_def LiveTranslator_init_def)
  have langs: "self_source_lang (LiveTranslator_init src tgt) = src"
    "self_target_lang (LiveTranslator_init src tgt) = tgt"
    by (simp_all add: LiveTranslator_init_def)
  from after_calls_invariant [OF init, of calls] langs
  have "unidirectional (after_calls (LiveTranslator_init src tgt) calls)"
    "self_source_lang (after_calls (LiveTranslator_init src tgt) calls) = src"
    "self_target_lang (after_calls (LiveTranslator_init src tgt) calls) = tgt"
    by simp_all
  with init langs show ?thesis
    by (simp add: after_call_langs after_call_unidirectional)
qed

theorem session_language_pair_invariant_witness:
  "unidirectional es_hi \<and>
   unidirectional (after_call es_hi (Process (mock_world (Returns (Some namaste)) Played) (lit ''hola''))) \<and>
   unidirectional (after_calls (LiveTranslator_init (lit ''es'') (lit ''hi''))
     [Process (mock_world (Returns (Some namaste)) Played) (lit ''hola''), ShowHistory,
      Process (mock_world (Raises (lit ''timed out'')) Played) (lit ''adios'')]) \<and>
   self_source_lang (after_calls (LiveTranslator_init (lit ''es'') (lit ''hi''))
     [Process (mock_world (Returns (Some namaste)) Played) (lit ''hola''), ShowHistory,
      Process (mock_world (Raises (lit ''timed out'')) Played) (lit ''adios'')]) = lit ''es'' \<and>
   self_target_lang (after_calls (LiveTranslator_init (lit ''es'') (lit ''hi''))
     [Process (mock_world (Returns (Some namaste)) Played) (lit ''hola''), ShowHistory,
      Process (mock_world (Raises (lit ''timed out'')) Played) (lit ''adios'')]) = lit ''hi''"
  using session_language_pair_invariant [of "lit ''es''" "lit ''hi''" es_hi
      "Process (mock_world (Returns (Some namaste)) Played) (lit ''hola'')"
      "[Process (mock_world (Returns (Some namaste)) Played) (lit ''hola''), ShowHistory,
        Process (mock_world (Raises (lit ''timed out'')) Played) (lit ''adios'')]"]
  by (simp add: es_hi_def)

section \<open>The history is append-only\<close>

lemma add_rows_map:
  assumes "list_all (\<lambda>entry. LANG_COLOR (source_lang entry) = Some sc \<and>
                              LANG_COLOR (target_lang entry) = Some tc) entries"
  shows "add_rows entries rows =
           Inr (rows @ map (\<lambda>entry. [(timestamp entry, timestamp entry),
                                      (original entry, markup sc (original entry)),
                                      (translated entry, markup tc (translated entry))]) entries)"
  using assms by (induction entries arbitrary: rows) simp_all

lemma after_calls_extends:
  "\<exists>added. history (after_calls self calls) = history self @ added"
proof (induction calls arbitrary: self)
  case Nil
  show ?case by (simp add: after_calls_def)
next
  case (Cons c calls)
  from Cons.IH [of "after_call self c"]
  obtain added where
    rest: "history (after_calls (after_call self c) calls) = history (after_call self c) @ added"
    by blast
  have "\<exists>first. history (after_call self c) = history self @ first"
    using after_call_cases [of self c]
  proof
    assume "after_call self c = self"
    then have "history (after_call self c) = history self @ []" by simp
    then show ?thesis ..
  next
    assume "\<exists>now text r. after_call self c =
      self\<lparr>history := history self @
        [ConversationEntry_init now text r (self_source_lang self) (self_target_lang self)]\<rparr>"
    then obtain stamp trimmed r where "after_call self c =
      self\<lparr>history := history self @
        [ConversationEntry_init stamp trimmed r (self_source_lang self) (self_target_lang self)]\<rparr>"
      by blast
    then have "history (after_call self c) = history self @
        [ConversationEntry_init stamp trimmed r (self_source_lang self) (self_target_lang self)]"
      by simp
    then show ?thesis ..
  qed
  then obtain first where "history (after_call self c) = history self @ first" ..
  with rest have "history (after_calls (self) (c # calls)) = history self @ (first @ added)"
    by (simp add: after_calls_def)
  then show ?case by blast
qed

lemma process_ignores_history:
  "fst (process w (self\<lparr>history := h\<rparr>) raw) = fst (process w self raw) \<and>
   snd (snd (process w (self\<lparr>history := h\<rparr>) raw)) = snd (snd (process w self raw))"
  by (simp add: process_def translate_def Let_def
      split: option.split prod.split sum.split service_reply.split)

lemma process_appends:
  assumes "fst (process w self raw) = Inr (Some entry)"
  shows "fst (snd (process w self raw)) = self\<lparr>history := history self @ [entry]\<rparr>"
  using process_state [of w self raw] assms by auto

text \<open>
  C4. Every call of \<open>process\<close> either returns an entry and appends exactly that entry at the
  end of the history, or returns no entry (or raises) and leaves the history as it was; so
  after any sequence of calls the entries recorded before are still there, at their positions
  and unchanged. On a session that satisfies the invariant and whose languages have a colour,
  the history display either shows one table with one row for each entry, in the order of
  the list, or raises because a cell does not render, and then shows nothing. Nothing is
  deduplicated: when a turn returns an entry, the same turn made again returns an equal entry,
  and the history then ends with both.
\<close>

theorem history_append_only:
  "((\<exists>entry. fst (process w self raw) = Inr (Some entry) \<and>
       history (fst (snd (process w self raw))) = history self @ [entry]) \<or>
    ((\<forall>entry. fst (process w self raw) \<noteq> Inr (Some entry)) \<and>
       history (fst (snd (process w self raw))) = history self)) \<and>
   take (length (history self)) (history (after_calls self calls)) = history self \<and>
   (history self \<noteq> [] \<and> unidirectional self \<and>
    LANG_COLOR (self_source_lang self) = Some sc \<and> LANG_COLOR (self_target_lang self) = Some tc
    \<longrightarrow>
    show_history w self =
      (if list_all (\<lambda>entry. renders w (timestamp entry) (timestamp entry) \<and>
                             renders w (original entry) (markup sc (original entry)) \<and>
                             renders w (translated entry) (markup tc (translated entry)))
            (history self)
       then (Inr (),
             [PrintTable (lit ''Conversation History'')
                [lit ''Time'', lit ''Original'', lit ''Translation'']
                (map (\<lambda>entry. [timestamp entry, markup sc (original entry),
                                markup tc (translated entry)]) (history self))])
       else (Inl MarkupError, []))) \<and>
   (fst (process w self raw) = Inr (Some turn)
    \<longrightarrow>
    fst (process w (fst (snd (process w self raw))) raw) = Inr (Some turn) \<and>
    history (after_calls self [Process w raw, Process w raw]) = history self @ [turn, turn])"
proof (intro conjI impI)
  show "(\<exists>entry. fst (process w self raw) = Inr (Some entry) \<and>
       history (fst (snd (process w self raw))) = history self @ [entry]) \<or>
    ((\<forall>entry. fst (process w self raw) \<noteq> Inr (Some entry)) \<and>
       history (fst (snd (process w self raw))) = history self)"
    using process_state [of w self raw] by auto
next
  from after_calls_extends [of self calls]
  show "take (length (history self)) (history (after_calls self calls)) = history self"
    by auto
next
  assume h: "history self \<noteq> [] \<and> unidirectional self \<and>
    LANG_COLOR (self_source_lang self) = Some sc \<and> LANG_COLOR (self_target_lang self) = Some tc"
  then have "list_all (\<lambda>entry. LANG_COLOR (source_lang entry) = Some sc \<and>
                              LANG_COLOR (target_lang entry) = Some tc) (history self)"
    by (auto simp: unidirectional_def list_all_iff)
  from add_rows_map [OF this, of "[]"] h
  show "show_history w self =
      (if list_all (\<lambda>entry. renders w (timestamp entry) (timestamp entry) \<and>
                             renders w (original entry) (markup sc (original entry)) \<and>
                             renders w (translated entry) (markup tc (translated entry)))
            (history self)
       then (Inr (),
             [PrintTable (lit ''Conversation History'')
                [lit ''Time'', lit ''Original'', lit ''Translation'']
                (map (\<lambda>entry. [timestamp entry, markup sc (original entry),
                                markup tc (translated entry)]) (history self))])
       else (Inl MarkupError, []))"
    by (simp add: show_history_def print_table_def list_all_iff comp_def)
next
  assume first: "fst (process w self raw) = Inr (Some turn)"
  let ?one = "fst (snd (process w self raw))"
  from process_appends [OF first]
  have one: "?one = self\<lparr>history := history self @ [turn]\<rparr>" .
  from process_ignores_history [where w = w and self = self and h = "history self @ [turn]" and raw = raw] first one
  show second: "fst (process w ?one raw) = Inr (Some turn)" by simp
  from process_appends [OF second]
  have "fst (snd (process w ?one raw)) = ?one\<lparr>history := history ?one @ [turn]\<rparr>" .
  with one show "history (after_calls self [Process w raw, Process w raw]) =
      history self @ [turn, turn]"
    by (simp add: after_calls_def)
qed

theorem history_append_only_witness:
  "history (after_calls es_hi
      [Process (mock_world (Returns (Some namaste)) Played) (lit ''hola''),
       Process (mock_world (Returns (Some namaste)) Played) (lit ''hola'')]) =
     [ConversationEntry_init (lit ''12:00:00'') (lit ''hola'') namaste (lit ''es'') (lit ''hi''),
      ConversationEntry_init (lit ''12:00:00'') (lit ''hola'') namaste (lit ''es'') (lit ''hi'')] \<and>
   show_history (mock_world (Returns (Some namaste)) Played) (after_calls es_hi
      [Process (mock_world (Returns (Some namaste)) Played) (lit ''hola''),
       Process (mock_world (Returns (Some namaste)) Played) (lit ''hola'')]) =
     (Inr (),
      [PrintTable (lit ''Conversation History'')
         [lit ''Time'', lit ''Original'', lit ''Translation'']
         [[lit ''12:00:00'', lit ''[cyan]hola[/cyan]'', lit ''[green]'' @ namaste @ lit ''[/green]''],
          [lit ''12:00:00'', lit ''[cyan]hola[/cyan]'', lit ''[green]'' @ namaste @ lit ''[/green]'']]])"
proof -
  let ?w = "mock_world (Returns (Some namaste)) Played"
  let ?after = "after_calls es_hi [Process ?w (lit ''hola''), Process ?w (lit ''hola'')]"
  let ?e = "ConversationEntry_init (lit ''12:00:00'') (lit ''hola'') namaste (lit ''es'') (lit ''hi'')"
  have ne: "namaste \<noteq> []" by (simp add: namaste_def)
  have turn: "fst (process ?w es_hi (lit ''hola'')) = Inr (Some ?e)"
    using process_translated [of "lit ''hola''" es_hi "lit ''cyan''" "lit ''green''"
        "lit ''Spanish''" "lit ''Hindi''" ?w namaste]
    by (simp add: hola_facts es_hi_simps LANG_COLOR_simps LANGUAGES_simps mock_world_simps
        mock_world_renders ne)
  have twice: "history ?after = [?e, ?e]"
    using history_append_only [of ?w es_hi "lit ''hola''" "[]" "lit ''cyan''" "lit ''green''" ?e]
      turn
    by (simp add: es_hi_simps)
  have inv: "unidirectional es_hi"
    by (simp add: unidirectional_def es_hi_simps)
  from after_calls_invariant [OF inv, of "[Process ?w (lit ''hola''), Process ?w (lit ''hola'')]"]
  have after: "unidirectional ?after" "self_source_lang ?after = lit ''es''"
    "self_target_lang ?after = lit ''hi''"
    by (simp_all add: es_hi_simps)
  have table: "show_history ?w ?after =
     (Inr (),
      [PrintTable (lit ''Conversation History'')
         [lit ''Time'', lit ''Original'', lit ''Translation'']
         (map (\<lambda>entry. [timestamp entry, markup (lit ''cyan'') (original entry),
                        markup (lit ''green'') (translated entry)]) (history ?after))])"
    using history_append_only [of ?w ?after "lit ''hola''" "[]" "lit ''cyan''" "lit ''green''" ?e]
      after twice
    by (simp add: LANG_COLOR_simps mock_world_renders)
  from twice table show ?thesis
    by (simp add: ConversationEntry_init_def markup_def lit_def)
qed

section \<open>The vowel allow-list\<close>

lemma vowels_set:
  "set vowels =
     {0x61, 0x65, 0x69, 0x6F, 0x75, 0x41, 0x45, 0x49, 0x4F, 0x55,
      0x905, 0x906, 0x907, 0x908, 0x909, 0x90A, 0x90F, 0x910, 0x913, 0x914}"
  by (simp add: vowels_def lit_def)

lemma vowels_distinct: "distinct vowels" "length vowels = 20"
  by (simp_all add: vowels_def lit_def)

lemma matra_range_plain:
  assumes "0x915 \<le> ch" "ch \<le> 0x94D"
  shows "ch \<notin> set vowels" "\<not> isspace ch" "ch \<noteq> 0x5B"
  using assms by (auto simp: vowels_set isspace_def)

text \<open>
  C10. The vowel allow-list is exactly twenty characters: the Latin vowels in both cases and
  the ten Devanagari independent vowel letters U+0905 to U+090A, U+090F, U+0910, U+0913 and
  U+0914. An input with no character of the list never reaches the translation service and
  never changes the session: \<open>process\<close> returns nothing, or raises when the notification
  does not render, which cannot happen when the trimmed input holds no pair of square
  brackets. In particular a Devanagari input written with consonants and dependent signs
  only (U+0915 to U+094D: the consonants, the nukta, the matras and the virama), such as the
  greeting U+0928 U+092E U+0938 U+094D U+0924 U+0947, is skipped as noise: the notification is
  printed, nothing is returned and no entry is recorded.
\<close>

theorem vowel_allow_list:
  "set vowels =
     {0x61, 0x65, 0x69, 0x6F, 0x75, 0x41, 0x45, 0x49, 0x4F, 0x55,
      0x905, 0x906, 0x907, 0x908, 0x909, 0x90A, 0x90F, 0x910, 0x913, 0x914} \<and>
   distinct vowels \<and> length vowels = 20 \<and>
   ((\<forall>ch \<in> set raw. ch \<notin> set vowels) \<longrightarrow>
      (fst (process w self raw) = Inr None \<or> fst (process w self raw) = Inl MarkupError) \<and>
      fst (snd (process w self raw)) = self \<and>
      translate_calls (snd (snd (process w self raw))) = []) \<and>
   ((\<forall>ch \<in> set raw. ch \<notin> set vowels) \<and> \<not> may_hold_tag (strip raw) \<longrightarrow>
      fst (process w self raw) = Inr None) \<and>
   (raw \<noteq> [] \<and> (\<forall>ch \<in> set raw. 0x915 \<le> ch \<and> ch \<le> 0x94D) \<longrightarrow>
      process w self raw =
        (Inr None, self,
         [Print (lit ''[dim]Skipping noise: '' @ [0x27] @ raw @ [0x27] @ lit ''[/dim]'')])) \<and>
   process w self [0x928, 0x92E, 0x938, 0x94D, 0x924, 0x947] =
     (Inr None, self,
      [Print (lit ''[dim]Skipping noise: '' @
              [0x27, 0x928, 0x92E, 0x938, 0x94D, 0x924, 0x947, 0x27] @ lit ''[/dim]'')])"
proof (intro conjI impI)
  show "set vowels =
     {0x61, 0x65, 0x69, 0x6F, 0x75, 0x41, 0x45, 0x49, 0x4F, 0x55,
      0x905, 0x906, 0x907, 0x908, 0x909, 0x90A, 0x90F, 0x910, 0x913, 0x914}"
    by (rule vowels_set)
  show "distinct vowels" "length vowels = 20" by (rule vowels_distinct)+
next
  assume none: "\<forall>ch \<in> set raw. ch \<notin> set vowels"
  with set_strip [of raw] have noise: "\<not> looks_like_speech (strip raw)"
    by (auto simp: looks_like_speech_iff)
  then have run: "process w self raw = (Inr None, self, []) \<or>
      process w self raw = (Inr None, self, [Print (skipping_noise (strip raw))]) \<or>
      process w self raw = (Inl MarkupError, self, [])"
    using process_empty [of raw w self] process_noise [of raw w self] by (cases "strip raw = []") auto
  from run show "fst (process w self raw) = Inr None \<or> fst (process w self raw) = Inl MarkupError"
    by auto
  from run show "fst (snd (process w self raw)) = self" by auto
  from run show "translate_calls (snd (snd (process w self raw))) = []"
    by (auto simp: translate_calls_def)
next
  assume h: "(\<forall>ch \<in> set raw. ch \<notin> set vowels) \<and> \<not> may_hold_tag (strip raw)"
  with set_strip [of raw] have noise: "\<not> looks_like_speech (strip raw)"
    by (auto simp: looks_like_speech_iff)
  from h have "renders w (strip raw) (skipping_noise (strip raw))"
    by (simp add: renders_plain)
  with noise show "fst (process w self raw) = Inr None"
    using process_empty [of raw w self] process_noise [of raw w self]
    by (cases "strip raw = []") auto
next
  assume h: "raw \<noteq> [] \<and> (\<forall>ch \<in> set raw. 0x915 \<le> ch \<and> ch \<le> 0x94D)"
  then have "\<forall>c \<in> set raw. \<not> isspace c" using matra_range_plain(2) by blast
  then have same: "strip raw = raw" by (rule strip_no_space)
  from h have "\<forall>ch \<in> set raw. ch \<notin> set vowels" using matra_range_plain(1) by blast
  then have noise: "\<not> looks_like_speech (strip raw)"
    by (auto simp: same looks_like_speech_iff)
  from h have "0x5B \<notin> set raw" using matra_range_plain(3) by blast
  then have "renders w (strip raw) (skipping_noise (strip raw))"
    by (simp add: same may_hold_tag_no_bracket renders_plain)
  with h same noise process_noise [of raw w self]
  show "process w self raw =
        (Inr None, self,
         [Print (lit ''[dim]Skipping noise: '' @ [0x27] @ raw @ [0x27] @ lit ''[/dim]'')])"
    by (simp add: skipping_noise_def)
next
  let ?greeting = "[0x928, 0x92E, 0x938, 0x94D, 0x924, 0x947] :: pystr"
  have same: "strip ?greeting = ?greeting"
    by (rule strip_no_space) (simp add: isspace_def)
  have noise: "\<not> looks_like_speech (strip ?greeting)"
    unfolding same by (simp add: looks_like_speech_def vowels_def lit_def)
  have "renders w (strip ?greeting) (skipping_noise (strip ?greeting))"
    unfolding same by (rule renders_plain) (simp add: may_hold_tag_def)
  with same noise process_noise [of ?greeting w self]
  show "process w self ?greeting =
     (Inr None, self,
      [Print (lit ''[dim]Skipping noise: '' @
              [0x27, 0x928, 0x92E, 0x938, 0x94D, 0x924, 0x947, 0x27] @ lit ''[/dim]'')])"
    by (simp add: skipping_noise_def)
qed

theorem vowel_allow_list_witness:
  "namaste = [0x928, 0x92E, 0x938, 0x94D, 0x924, 0x947] \<and>
   set namaste \<inter> set vowels = {} \<and>
   fst (process (mock_world (Returns (Some (lit ''hello''))) Played)
          (LiveTranslator_init (lit ''hi'') (lit ''es'')) namaste) = Inr None \<and>
   fst (snd (process (mock_world (Returns (Some (lit ''hello''))) Played)
          (LiveTranslator_init (lit ''hi'') (lit ''es'')) namaste)) =
     LiveTranslator_init (lit ''hi'') (lit ''es'') \<and>
   translate_calls (snd (snd (process (mock_world (Returns (Some (lit ''hello''))) Played)
          (LiveTranslator_init (lit ''hi'') (lit ''es'')) namaste))) = [] \<and>
   process (mock_world (Returns (Some (lit ''hello''))) Played)
     (LiveTranslator_init (lit ''hi'') (lit ''es'')) [0x915, 0x93F, 0x924, 0x93E, 0x92C] =
     (Inr None, LiveTranslator_init (lit ''hi'') (lit ''es''),
      [Print (lit ''[dim]Skipping noise: '' @ [0x27, 0x915, 0x93F, 0x924, 0x93E, 0x92C, 0x27] @
              lit ''[/dim]'')])"
proof -
  let ?w = "mock_world (Returns (Some (lit ''hello''))) Played"
  let ?self = "LiveTranslator_init (lit ''hi'') (lit ''es'')"
  have none: "\<forall>ch \<in> set namaste. ch \<notin> set vowels"
    by (simp add: namaste_def vowels_def lit_def)
  then have disj: "set namaste \<inter> set vowels = {}" by blast
  have plain: "\<not> may_hold_tag (strip namaste)"
    by (simp add: namaste_def strip_def isspace_def may_hold_tag_def)
  have range: "[0x915, 0x93F, 0x924, 0x93E, 0x92C] \<noteq> ([]::nat list) \<and>
      (\<forall>ch \<in> set [0x915, 0x93F, 0x924, 0x93E, 0x92C::nat]. 0x915 \<le> ch \<and> ch \<le> 0x94D)"
    by simp
  from vowel_allow_list [of namaste ?w ?self] none plain
  have first: "fst (process ?w ?self namaste) = Inr None \<and>
      fst (snd (process ?w ?self namaste)) = ?self \<and>
      translate_calls (snd (snd (process ?w ?self namaste))) = []"
    by blast
  from vowel_allow_list [of "[0x915, 0x93F, 0x924, 0x93E, 0x92C]" ?w ?self] range
  have second: "process ?w ?self [0x915, 0x93F, 0x924, 0x93E, 0x92C] =
     (Inr None, ?self,
      [Print (lit ''[dim]Skipping noise: '' @ [0x27, 0x915, 0x93F, 0x924, 0x93E, 0x92C, 0x27] @
              lit ''[/dim]'')])"
    by simp
  have "namaste = [0x928, 0x92E, 0x938, 0x94D, 0x924, 0x947]" by (simp add: namaste_def)
  with disj first second show ?thesis by blast
qed

section \<open>Speech synthesis and the turn\<close>

lemma renders_synthesis: "renders (w\<lparr>synthesis := synth\<rparr>) x line = renders w x line"
  by (simp add: renders_def)

text \<open>
  What the synthesis does never reaches the caller of \<open>process\<close>: the value returned or the
  exception raised, the object after the call and the lines printed on the control thread are
  the same for every behaviour of the synthesis. Only the content of the started thread
  differs.
\<close>

lemma synthesis_confined:
  "fst (process (w\<lparr>synthesis := synth\<rparr>) self raw) = fst (process w self raw) \<and>
   fst (snd (process (w\<lparr>synthesis := synth\<rparr>) self raw)) = fst (snd (process w self raw)) \<and>
   printed (snd (snd (process (w\<lparr>synthesis := synth\<rparr>) self raw))) =
     printed (snd (snd (process w self raw)))"
proof (cases "looks_like_speech (strip raw)")
  case False
  then show ?thesis
    by (cases "strip raw = []") (simp_all add: process_empty process_noise renders_synthesis)
next
  case speech: True
  then have ne: "strip raw \<noteq> []" by (rule looks_like_speech_nonempty)
  let ?w' = "w\<lparr>synthesis := synth\<rparr>"
  show ?thesis
  proof (cases "LANG_COLOR (self_source_lang self)")
    case None
    with speech ne show ?thesis by (simp add: process_def)
  next
    case sc: (Some sc)
    show ?thesis
    proof (cases "LANG_COLOR (self_target_lang self)")
      case None
      with speech ne sc show ?thesis by (simp add: process_def)
    next
      case tc: (Some tc)
      show ?thesis
      proof (cases "LANGUAGES (self_source_lang self)")
        case None
        with speech ne sc tc show ?thesis by (simp add: process_def)
      next
        case sn: (Some sn)
        show ?thesis
        proof (cases "renders w (strip raw) ([0x0A] @ language_line sc sn (strip raw))")
          case False
          then have "\<not> renders ?w' (strip raw) ([0x0A] @ language_line sc sn (strip raw))"
            by (simp add: renders_synthesis)
          from process_source_rejected [OF speech sc tc sn this]
            process_source_rejected [OF speech sc tc sn False]
          show ?thesis by simp
        next
          case shown: True
          then have shown': "renders ?w' (strip raw) ([0x0A] @ language_line sc sn (strip raw))"
            by (simp add: renders_synthesis)
          show ?thesis
          proof (cases "translation_service w (self_source_lang self) (self_target_lang self)
              (strip raw)")
            case (Raises e)
            then have "translation_service ?w' (self_source_lang self) (self_target_lang self)
              (strip raw) = Raises e" by simp
            from process_raises [OF speech sc tc sn shown' this]
              process_raises [OF speech sc tc sn shown Raises]
            show ?thesis by (simp add: renders_synthesis)
          next
            case (Returns result)
            then have service': "translation_service ?w' (self_source_lang self)
              (self_target_lang self) (strip raw) = Returns result" by simp
            show ?thesis
            proof (cases "result = None \<or> result = Some []")
              case True
              from process_empty_result [OF speech sc tc sn shown' service' True]
                process_empty_result [OF speech sc tc sn shown Returns True]
              show ?thesis by simp
            next
              case False
              then obtain r where r: "result = Some r" "r \<noteq> []" by auto
              show ?thesis
              proof (cases "LANGUAGES (self_target_lang self)")
                case None
                with speech ne sc tc sn shown Returns r show ?thesis
                  by (simp add: process_def translate_def console_print_def Let_def
                      renders_synthesis)
              next
                case tn: (Some tn)
                from Returns service' r
                have s: "translation_service w (self_source_lang self) (self_target_lang self)
                    (strip raw) = Returns (Some r)"
                  and s': "translation_service ?w' (self_source_lang self) (self_target_lang self)
                    (strip raw) = Returns (Some r)" by simp_all
                from process_translated [OF speech sc tc sn tn shown' s' r(2)]
                  process_translated [OF speech sc tc sn tn shown s r(2)]
                show ?thesis by (simp add: renders_synthesis printed_simps)
              qed
            qed
          qed
        qed
      qed
    qed
  qed
qed

lemma speak_outcomes:
  "synthesis w x lang = Played \<Longrightarrow> speak w x lang = (Inr (), [])"
  "synthesis w x lang = RaisesImportError \<Longrightarrow>
     speak w x lang =
       (Inr (), [Print (lit ''[yellow]Audio output requires: pip install gtts pygame[/yellow]'')])"
  "synthesis w x lang = RaisesException e \<Longrightarrow>
     speak w x lang =
       (if renders w e (lit ''[yellow]Audio error: '' @ e @ lit ''[/yellow]'')
        then (Inr (), [Print (lit ''[yellow]Audio error: '' @ e @ lit ''[/yellow]'')])
        else (Inl MarkupError, []))"
  by (simp_all add: speak_def console_print_def audio_requires_def audio_error_def
      renders_nothing_interpolated)

section \<open>Text that holds console markup\<close>

text \<open>
  The lines that \<open>process\<close> prints are built from the user's text, the translation and the
  text of an exception without escaping them. When such a text holds a closing tag that
  matches no open tag, as in "[/b]", the console raises \<open>MarkupError\<close> and the call ends there.
\<close>

lemma process_no_vowel_shown:
  assumes "strip raw \<noteq> []" and "\<forall>ch \<in> set (strip raw). ch \<notin> set vowels"
    and "renders w (strip raw) (skipping_noise (strip raw))"
  shows "process w self raw =
           (Inr None, self,
            [Print (lit ''[dim]Skipping noise: '' @ [0x27] @ strip raw @ [0x27] @ lit ''[/dim]'')])"
proof -
  from assms(2) have "\<not> looks_like_speech (strip raw)"
    by (simp add: looks_like_speech_iff)
  with assms(1,3) show ?thesis by (simp add: process_noise skipping_noise_def)
qed

lemma b_tag_facts:
  "strip (lit ''[/b]'') = lit ''[/b]''" "\<not> looks_like_speech (lit ''[/b]'')"
  "may_hold_tag (lit ''[/b]'')"
  "skipping_noise (lit ''[/b]'') = lit ''[dim]Skipping noise: '[/b]'[/dim]''"
  by (simp_all add: strip_def lit_def isspace_def looks_like_speech_def vowels_def
      may_hold_tag_def skipping_noise_def)

text \<open>
  C6. The claim holds whenever the notification renders (\<open>process_no_vowel_shown\<close>), but not
  for every input: the trimmed input "[/b]" is not empty and holds no character of the vowel
  allow-list, and on a console that rejects the line
  \<^verbatim>\<open>[dim]Skipping noise: '[/b]'[/dim]\<close>, as rich does, \<open>process\<close> raises \<open>MarkupError\<close>: it
  neither returns nothing nor shows the notification. For "123" the notification is the line
  \<^verbatim>\<open>[dim]Skipping noise: '123'[/dim]\<close>.
\<close>

theorem skipping_noise_markup_error:
  "strip (lit ''[/b]'') \<noteq> [] \<and> set (strip (lit ''[/b]'')) \<inter> set vowels = {} \<and>
   process (rejecting [lit ''[dim]Skipping noise: '[/b]'[/dim]'']
              (mock_world (Returns (Some namaste)) Played)) es_hi (lit ''[/b]'') =
     (Inl MarkupError, es_hi, []) \<and>
   process (mock_world (Returns (Some namaste)) Played) es_hi (lit ''123'') =
     (Inr None, es_hi, [Print (lit ''[dim]Skipping noise: '123'[/dim]'')])"
proof -
  let ?w = "rejecting [lit ''[dim]Skipping noise: '[/b]'[/dim]'']
              (mock_world (Returns (Some namaste)) Played)"
  have ne: "strip (lit ''[/b]'') \<noteq> []" unfolding b_tag_facts by (simp add: lit_def)
  have none: "set (strip (lit ''[/b]'')) \<inter> set vowels = {}"
    unfolding b_tag_facts by (simp add: lit_def vowels_def)
  have "\<not> renders ?w (strip (lit ''[/b]'')) (skipping_noise (strip (lit ''[/b]'')))"
    by (simp add: renders_def b_tag_facts rejecting_simps)
  with process_noise [of "lit ''[/b]''" ?w es_hi] ne
  have bad: "process ?w es_hi (lit ''[/b]'') = (Inl MarkupError, es_hi, [])"
    by (simp add: b_tag_facts)
  have s: "strip (lit ''123'') = lit ''123''" by (simp add: strip_def lit_def isspace_def)
  have good: "process (mock_world (Returns (Some namaste)) Played) es_hi (lit ''123'') =
     (Inr None, es_hi, [Print (lit ''[dim]Skipping noise: '123'[/dim]'')])"
    using process_noise [of "lit ''123''" "mock_world (Returns (Some namaste)) Played" es_hi]
    unfolding s
    by (simp add: mock_world_renders looks_like_speech_def skipping_noise_def lit_def vowels_def)
  from ne none bad good show ?thesis by blast
qed

lemma hola_b_facts:
  "strip (lit ''hola [/b]'') = lit ''hola [/b]''" "looks_like_speech (lit ''hola [/b]'')"
  "may_hold_tag (lit ''hola [/b]'')"
  "[0x0A] @ language_line (lit ''cyan'') (lit ''Spanish'') (lit ''hola [/b]'') =
     [0x0A] @ lit ''  [cyan]Spanish:[/cyan]  hola [/b]''"
  by (simp_all add: strip_def lit_def isspace_def looks_like_speech_def vowels_def
      may_hold_tag_def language_line_def)

text \<open>
  C1. The claim holds whenever the printed lines render and the thread starts
  (\<open>process_translated\<close>), but not for every input: "hola [/b]" passes the plausibility
  filter and the service returns a non-empty string for it, and on a console that rejects the
  line of the original text, as rich does, \<open>process\<close> raises \<open>MarkupError\<close> at its first
  print: no entry is returned, and none is appended.
\<close>

theorem source_line_markup_error:
  "2 \<le> length (strip (lit ''hola [/b]'')) \<and>
   list_ex (\<lambda>ch. ch \<in> set vowels) (strip (lit ''hola [/b]'')) \<and>
   translation_service
     (rejecting [[0x0A] @ lit ''  [cyan]Spanish:[/cyan]  hola [/b]'']
        (mock_world (Returns (Some namaste)) Played))
     (lit ''es'') (lit ''hi'') (strip (lit ''hola [/b]'')) = Returns (Some namaste) \<and>
   namaste \<noteq> [] \<and>
   process (rejecting [[0x0A] @ lit ''  [cyan]Spanish:[/cyan]  hola [/b]'']
              (mock_world (Returns (Some namaste)) Played)) es_hi (lit ''hola [/b]'') =
     (Inl MarkupError, es_hi, [])"
proof -
  let ?w = "rejecting [[0x0A] @ lit ''  [cyan]Spanish:[/cyan]  hola [/b]'']
              (mock_world (Returns (Some namaste)) Played)"
  have speech: "looks_like_speech (strip (lit ''hola [/b]''))" by (simp add: hola_b_facts)
  then have filter: "2 \<le> length (strip (lit ''hola [/b]''))"
    "list_ex (\<lambda>ch. ch \<in> set vowels) (strip (lit ''hola [/b]''))"
    by (simp_all add: looks_like_speech_iff list_ex_iff)
  have svc: "translation_service ?w (lit ''es'') (lit ''hi'') (strip (lit ''hola [/b]'')) =
      Returns (Some namaste)"
    by (simp add: rejecting_simps mock_world_simps)
  have ne: "namaste \<noteq> []" by (simp add: namaste_def)
  have "\<not> renders ?w (strip (lit ''hola [/b]''))
      ([0x0A] @ language_line (lit ''cyan'') (lit ''Spanish'') (strip (lit ''hola [/b]'')))"
    unfolding hola_b_facts by (simp add: renders_def hola_b_facts rejecting_simps)
  from process_source_rejected [OF speech _ _ _ this, of es_hi "lit ''green''"]
  have "process ?w es_hi (lit ''hola [/b]'') = (Inl MarkupError, es_hi, [])"
    by (simp add: es_hi_simps LANG_COLOR_simps LANGUAGES_simps)
  with filter svc ne show ?thesis by blast
qed



section \<open>Failed translations\<close>

text \<open>
  C2, as the claim states it, fails: when the service returns the empty string for "hola",
  \<open>process\<close> returns nothing and leaves the session unchanged, but it prints only the line
  of the original text and no error notification.
\<close>

theorem empty_result_not_notified:
  "translation_service (mock_world (Returns (Some [])) Played) (lit ''es'') (lit ''hi'')
     (strip (lit ''hola'')) = Returns (Some []) \<and>
   process (mock_world (Returns (Some [])) Played) es_hi (lit ''hola'') =
     (Inr None, es_hi,
      [Print ([0x0A] @ language_line (lit ''cyan'') (lit ''Spanish'') (lit ''hola'')),
       TranslateCall (lit ''es'') (lit ''hi'') (lit ''hola'')]) \<and>
   \<not> error_notified (snd (snd (process (mock_world (Returns (Some [])) Played) es_hi (lit ''hola''))))"
proof -
  let ?w = "mock_world (Returns (Some [])) Played"
  have svc: "translation_service ?w (self_source_lang es_hi) (self_target_lang es_hi)
      (strip (lit ''hola'')) = Returns (Some [])"
    by (simp add: mock_world_simps)
  have speech: "looks_like_speech (strip (lit ''hola''))"
    by (simp add: hola_facts)
  have run: "process ?w es_hi (lit ''hola'') =
     (Inr None, es_hi,
      [Print ([0x0A] @ language_line (lit ''cyan'') (lit ''Spanish'') (lit ''hola'')),
       TranslateCall (lit ''es'') (lit ''hi'') (lit ''hola'')])"
    using process_empty_result [OF speech _ _ _ mock_world_renders svc,
        of "lit ''cyan''" "lit ''green''" "lit ''Spanish''"]
    by (simp add: es_hi_simps LANG_COLOR_simps LANGUAGES_simps hola_facts)
  have quiet: "\<not> error_notified
      [Print ([0x0A] @ language_line (lit ''cyan'') (lit ''Spanish'') (lit ''hola'')),
       TranslateCall (lit ''es'') (lit ''hi'') (lit ''hola'')]"
    unfolding error_notified_def printed_simps using source_line_not_error by simp
  from svc run quiet show ?thesis by (simp add: mock_world_simps)
qed

text \<open>
  C2, amended. On a session between the two configured languages, for every input, if the
  translation service raises or returns an empty result (\<open>None\<close> or the empty string) for
  the trimmed input, the session, its history included, is unchanged, and \<open>process\<close> returns
  nothing unless one of its prints raises \<open>MarkupError\<close>. When it returns, the "Translation
  error" notification has been printed exactly when the input passes the plausibility filter
  and the service raised; an empty result is discarded silently.
\<close>

theorem translation_failure_discards_turn:
  assumes "self_source_lang self \<in> {lit ''es'', lit ''hi''}"
    and "self_target_lang self \<in> {lit ''es'', lit ''hi''}"
    and "translation_service w (self_source_lang self) (self_target_lang self) (strip raw) = reply"
    and "(\<exists>e. reply = Raises e) \<or> reply = Returns None \<or> reply = Returns (Some [])"
  shows "fst (snd (process w self raw)) = self \<and>
         (fst (process w self raw) = Inr None \<or> fst (process w self raw) = Inl MarkupError) \<and>
         (fst (process w self raw) = Inr None \<longrightarrow>
            (error_notified (snd (snd (process w self raw))) \<longleftrightarrow>
               looks_like_speech (strip raw) \<and> (\<exists>e. reply = Raises e)))"
proof -
  from assms(1) obtain sc sn
    where src: "LANG_COLOR (self_source_lang self) = Some sc" "LANGUAGES (self_source_lang self) = Some sn"
    using configured_lookup by blast
  from assms(2) obtain tc tn
    where tgt: "LANG_COLOR (self_target_lang self) = Some tc" "LANGUAGES (self_target_lang self) = Some tn"
    using configured_lookup by blast
  consider (blank) "strip raw = []"
    | (noise) "strip raw \<noteq> []" "\<not> looks_like_speech (strip raw)"
    | (unshown) "looks_like_speech (strip raw)"
        "\<not> renders w (strip raw) ([0x0A] @ language_line sc sn (strip raw))"
    | (raised) e where "looks_like_speech (strip raw)"
        "renders w (strip raw) ([0x0A] @ language_line sc sn (strip raw))" "reply = Raises e"
    | (silent) "looks_like_speech (strip raw)"
        "renders w (strip raw) ([0x0A] @ language_line sc sn (strip raw))"
        "reply = Returns None \<or> reply = Returns (Some [])"
    using assms(4) by blast
  then show ?thesis
  proof cases
    case blank
    then have "\<not> looks_like_speech (strip raw)" by (simp add: looks_like_speech_def)
    with blank show ?thesis
      by (simp add: process_empty error_notified_def printed_simps)
  next
    case noise
    then show ?thesis
      by (simp add: process_noise error_notified_def printed_simps skipping_noise_not_error)
  next
    case unshown
    from process_source_rejected [OF unshown(1) src(1) tgt(1) src(2) unshown(2)]
    show ?thesis by simp
  next
    case raised
    from raised(3) assms(3)
    have "translation_service w (self_source_lang self) (self_target_lang self) (strip raw) = Raises e"
      by simp
    from process_raises [OF raised(1) src(1) tgt(1) src(2) raised(2) this] raised
    show ?thesis
      using source_line_not_error translation_error_is_error
      by (simp add: error_notified_def printed_simps)
  next
    case silent
    then obtain r where r: "reply = Returns r" "r = None \<or> r = Some []" by blast
    with assms(3)
    have "translation_service w (self_source_lang self) (self_target_lang self) (strip raw) = Returns r"
      by simp
    from process_empty_result [OF silent(1) src(1) tgt(1) src(2) silent(2) this r(2)] r silent(1)
    show ?thesis
      using source_line_not_error
      by (auto simp add: error_notified_def printed_simps)
  qed
qed

theorem translation_failure_discards_turn_witness:
  "fst (snd (process (mock_world (Raises (lit ''timed out'')) Played) es_hi (lit ''hola''))) = es_hi \<and>
   fst (process (mock_world (Raises (lit ''timed out'')) Played) es_hi (lit ''hola'')) = Inr None \<and>
   error_notified (snd (snd (process (mock_world (Raises (lit ''timed out'')) Played) es_hi
     (lit ''hola'')))) \<and>
   printed (snd (snd (process (mock_world (Raises (lit ''timed out'')) Played) es_hi
     (lit ''hola'')))) =
     [[0x0A] @ lit ''  [cyan]Spanish:[/cyan]  hola'', lit ''[red]Translation error: timed out[/red]'']"
proof -
  let ?w = "mock_world (Raises (lit ''timed out'')) Played"
  have h1: "self_source_lang es_hi \<in> {lit ''es'', lit ''hi''}" by (simp add: es_hi_simps)
  have h2: "self_target_lang es_hi \<in> {lit ''es'', lit ''hi''}" by (simp add: es_hi_simps)
  have h3: "translation_service ?w (self_source_lang es_hi) (self_target_lang es_hi)
      (strip (lit ''hola'')) = Raises (lit ''timed out'')"
    by (simp add: mock_world_simps)
  have h4: "(\<exists>e. Raises (lit ''timed out'') = Raises e) \<or>
      Raises (lit ''timed out'') = Returns None \<or> Raises (lit ''timed out'') = Returns (Some [])"
    by simp
  have speech: "looks_like_speech (strip (lit ''hola''))" by (simp add: hola_facts)
  have run: "process ?w es_hi (lit ''hola'') =
     (Inr None, es_hi,
      [Print ([0x0A] @ language_line (lit ''cyan'') (lit ''Spanish'') (strip (lit ''hola''))),
       TranslateCall (lit ''es'') (lit ''hi'') (strip (lit ''hola'')),
       Print (translation_error (lit ''timed out''))])"
    using process_raises [OF speech _ _ _ mock_world_renders h3,
        of "lit ''cyan''" "lit ''green''" "lit ''Spanish''"]
    by (simp add: es_hi_simps LANG_COLOR_simps LANGUAGES_simps mock_world_renders)
  have lines: "printed (snd (snd (process ?w es_hi (lit ''hola'')))) =
     [[0x0A] @ lit ''  [cyan]Spanish:[/cyan]  hola'', lit ''[red]Translation error: timed out[/red]'']"
    unfolding run hola_facts
    by (simp add: printed_simps language_line_def translation_error_def lit_def)
  from run have none: "fst (process ?w es_hi (lit ''hola'')) = Inr None" by simp
  from translation_failure_discards_turn [OF h1 h2 h3 h4] none speech lines
  show ?thesis by simp
qed

section \<open>What a turn prints\<close>

text \<open>
  C9, as the claim states it, fails: for "hola", which passes the filter, and a service that
  raises, \<open>process\<close> returns nothing, and yet the line of the original text has been printed,
  before the error notification.
\<close>

theorem original_emitted_on_failure:
  "looks_like_speech (strip (lit ''hola'')) \<and>
   fst (process (mock_world (Raises (lit ''timed out'')) Played) es_hi (lit ''hola'')) = Inr None \<and>
   printed (snd (snd (process (mock_world (Raises (lit ''timed out'')) Played) es_hi (lit ''hola'')))) =
     [[0x0A] @ language_line (lit ''cyan'') (lit ''Spanish'') (lit ''hola''),
      translation_error (lit ''timed out'')]"
proof -
  let ?w = "mock_world (Raises (lit ''timed out'')) Played"
  have speech: "looks_like_speech (strip (lit ''hola''))" by (simp add: hola_facts)
  have svc: "translation_service ?w (self_source_lang es_hi) (self_target_lang es_hi)
      (strip (lit ''hola'')) = Raises (lit ''timed out'')"
    by (simp add: mock_world_simps)
  from process_raises [OF speech _ _ _ mock_world_renders svc,
      of "lit ''cyan''" "lit ''green''" "lit ''Spanish''"]
  have "process ?w es_hi (lit ''hola'') =
     (Inr None, es_hi,
      [Print ([0x0A] @ language_line (lit ''cyan'') (lit ''Spanish'') (lit ''hola'')),
       TranslateCall (lit ''es'') (lit ''hi'') (lit ''hola''),
       Print (translation_error (lit ''timed out''))])"
    by (simp add: es_hi_simps LANG_COLOR_simps LANGUAGES_simps hola_facts mock_world_renders)
  with speech show ?thesis by (simp add: printed_simps)
qed

text \<open>
  C9, amended. For every input that passes the plausibility filter, on a session whose
  languages are configured, and unless one of its prints raises \<open>MarkupError\<close>: \<open>process\<close>
  prints the line of the original text first and then calls the translation service, whatever
  the service answers. The line of the translated text (and the "Speaking" line) is printed
  only when the service returns a non-empty string; when the service raises, the original
  line is followed by the error notification alone, and when it returns an empty result, by
  nothing.
\<close>

theorem output_of_filtered_in_turn:
  assumes "looks_like_speech (strip raw)"
    and "LANG_COLOR (self_source_lang self) = Some sc"
    and "LANGUAGES (self_source_lang self) = Some sn"
    and "LANG_COLOR (self_target_lang self) = Some tc"
    and "LANGUAGES (self_target_lang self) = Some tn"
    and "fst (process w self raw) \<noteq> Inl MarkupError"
  shows "take 2 (snd (snd (process w self raw))) =
           [Print ([0x0A] @ language_line sc sn (strip raw)),
            TranslateCall (self_source_lang self) (self_target_lang self) (strip raw)] \<and>
         printed (snd (snd (process w self raw))) =
           (case translation_service w (self_source_lang self) (self_target_lang self) (strip raw) of
              Raises e \<Rightarrow> [[0x0A] @ language_line sc sn (strip raw), translation_error e]
            | Returns None \<Rightarrow> [[0x0A] @ language_line sc sn (strip raw)]
            | Returns (Some r) \<Rightarrow>
                if r = [] then [[0x0A] @ language_line sc sn (strip raw)]
                else [[0x0A] @ language_line sc sn (strip raw), language_line tc tn r, speaking])"
proof -
  have shown: "renders w (strip raw) ([0x0A] @ language_line sc sn (strip raw))"
  proof (rule ccontr)
    assume "\<not> renders w (strip raw) ([0x0A] @ language_line sc sn (strip raw))"
    from process_source_rejected [OF assms(1,2,4,3) this] assms(6) show False by simp
  qed
  show ?thesis
  proof (cases "translation_service w (self_source_lang self) (self_target_lang self) (strip raw)")
    case (Raises e)
    from process_raises [OF assms(1,2,4,3) shown Raises] Raises assms(6)
    show ?thesis by (simp add: printed_simps split: if_splits)
  next
    case (Returns result)
    show ?thesis
    proof (cases "result = None \<or> result = Some []")
      case True
      from process_empty_result [OF assms(1,2,4,3) shown Returns True] Returns True
      show ?thesis by (auto simp add: printed_simps)
    next
      case False
      then obtain r where r: "result = Some r" "r \<noteq> []" by auto
      with Returns
      have "translation_service w (self_source_lang self) (self_target_lang self) (strip raw) =
          Returns (Some r)" by simp
      from process_translated [OF assms(1,2,4,3,5) shown this r(2)] Returns r assms(6)
      show ?thesis by (simp add: printed_simps split: if_splits)
    qed
  qed
qed

theorem output_of_filtered_in_turn_witness:
  "fst (process (mock_world (Returns None) Played) es_hi (lit ''hola'')) \<noteq> Inl MarkupError \<and>
   take 2 (snd (snd (process (mock_world (Returns None) Played) es_hi (lit ''hola'')))) =
     [Print ([0x0A] @ lit ''  [cyan]Spanish:[/cyan]  hola''),
      TranslateCall (lit ''es'') (lit ''hi'') (lit ''hola'')] \<and>
   printed (snd (snd (process (mock_world (Returns None) Played) es_hi (lit ''hola'')))) =
     [[0x0A] @ lit ''  [cyan]Spanish:[/cyan]  hola''] \<and>
   fst (process (mock_world (Returns (Some namaste)) Played) es_hi (lit ''hola'')) \<noteq>
     Inl MarkupError \<and>
   printed (snd (snd (process (mock_world (Returns (Some namaste)) Played) es_hi (lit ''hola'')))) =
     [[0x0A] @ lit ''  [cyan]Spanish:[/cyan]  hola'',
      lit ''  [green]Hindi:[/green]  '' @ namaste,
      lit ''[dim]  Speaking'' @ [0x2026] @ lit ''[/dim]'']"
proof -
  let ?quiet = "mock_world (Returns None) Played"
  let ?good = "mock_world (Returns (Some namaste)) Played"
  have h1: "looks_like_speech (strip (lit ''hola''))" by (simp add: hola_facts)
  have h2: "LANG_COLOR (self_source_lang es_hi) = Some (lit ''cyan'')"
    by (simp add: es_hi_simps LANG_COLOR_simps)
  have h3: "LANGUAGES (self_source_lang es_hi) = Some (lit ''Spanish'')"
    by (simp add: es_hi_simps LANGUAGES_simps)
  have h4: "LANG_COLOR (self_target_lang es_hi) = Some (lit ''green'')"
    by (simp add: es_hi_simps LANG_COLOR_simps)
  have h5: "LANGUAGES (self_target_lang es_hi) = Some (lit ''Hindi'')"
    by (simp add: es_hi_simps LANGUAGES_simps)
  have ne: "namaste \<noteq> []" by (simp add: namaste_def)
  have quiet: "fst (process ?quiet es_hi (lit ''hola'')) \<noteq> Inl MarkupError"
    using process_empty_result [where w = ?quiet and r = None, OF h1 h2 h4 h3 mock_world_renders]
    by (simp add: mock_world_simps)
  have good: "fst (process ?good es_hi (lit ''hola'')) \<noteq> Inl MarkupError"
    using process_translated [where w = ?good and r = namaste, OF h1 h2 h4 h3 h5 mock_world_renders] ne
    by (simp add: mock_world_simps mock_world_renders)
  have lines: "language_line (lit ''cyan'') (lit ''Spanish'') (lit ''hola'') =
      lit ''  [cyan]Spanish:[/cyan]  hola''"
    "language_line (lit ''green'') (lit ''Hindi'') namaste = lit ''  [green]Hindi:[/green]  '' @ namaste"
    "speaking = lit ''[dim]  Speaking'' @ [0x2026] @ lit ''[/dim]''"
    by (simp_all add: language_line_def speaking_def lit_def)
  from output_of_filtered_in_turn [OF h1 h2 h3 h4 h5 quiet]
  have one: "take 2 (snd (snd (process ?quiet es_hi (lit ''hola'')))) =
     [Print ([0x0A] @ lit ''  [cyan]Spanish:[/cyan]  hola''),
      TranslateCall (lit ''es'') (lit ''hi'') (lit ''hola'')] \<and>
     printed (snd (snd (process ?quiet es_hi (lit ''hola'')))) =
     [[0x0A] @ lit ''  [cyan]Spanish:[/cyan]  hola'']"
    by (simp add: mock_world_simps es_hi_simps hola_facts lines)
  from output_of_filtered_in_turn [OF h1 h2 h3 h4 h5 good]
  have two: "printed (snd (snd (process ?good es_hi (lit ''hola'')))) =
     [[0x0A] @ lit ''  [cyan]Spanish:[/cyan]  hola'',
      lit ''  [green]Hindi:[/green]  '' @ namaste,
      lit ''[dim]  Speaking'' @ [0x2026] @ lit ''[/dim]'']"
    by (simp add: mock_world_simps es_hi_simps hola_facts lines ne)
  from quiet good one two show ?thesis by blast
qed

end
